theory Spec2Isabelle
  imports Main "HOL-Library.Multiset"
begin

section \<open>Library functions the Go code calls\<close>

text \<open>
  Go strings are byte sequences; they are modelled as \<open>string\<close> (a list of bytes).
  \<open>strings.ToLower\<close> and \<open>strings.TrimSpace\<close> are modelled on ASCII: a byte outside
  \<open>A..Z\<close> is left as it is, and the white space trimmed is tab, line feed, vertical tab, form
  feed, carriage return and blank. (Go also folds non-ASCII letters and trims the non-ASCII
  white space U+0085 and U+00A0; no statement below depends on what the two functions do to
  a particular byte.)
\<close>

definition lower_char :: "char \<Rightarrow> char" where
  "lower_char c =
     (case map_of (zip ''ABCDEFGHIJKLMNOPQRSTUVWXYZ'' ''abcdefghijklmnopqrstuvwxyz'') c of
        None \<Rightarrow> c
      | Some d \<Rightarrow> d)"

definition ToLower :: "string \<Rightarrow> string" where
  "ToLower s = map lower_char s"

definition is_space :: "char \<Rightarrow> bool" where
  "is_space c = (c \<in> set [CHR 0x09, CHR 0x0A, CHR 0x0B, CHR 0x0C, CHR 0x0D, CHR '' ''])"

definition TrimSpace :: "string \<Rightarrow> string" where
  "TrimSpace s = rev (dropWhile is_space (rev (dropWhile is_space s)))"

text \<open>\<open>strings.Join\<close>.\<close>

fun Join :: "string list \<Rightarrow> string \<Rightarrow> string" where
  "Join [] sep = []"
| "Join [x] sep = x"
| "Join (x # y # ys) sep = x @ sep @ Join (y # ys) sep"

text \<open>The verb \<open>%d\<close> of \<open>fmt\<close>: decimal digits, with a sign for a negative number.\<close>

definition digit_char :: "nat \<Rightarrow> char" where
  "digit_char d = ''0123456789'' ! (d mod 10)"

fun nat_digits :: "nat \<Rightarrow> string" where
  "nat_digits n = (if n < 10 then [digit_char n] else nat_digits (n div 10) @ [digit_char n])"

definition fmt_d :: "int \<Rightarrow> string" where
  "fmt_d i = (if i < 0 then CHR ''-'' # nat_digits (nat (- i)) else nat_digits (nat i))"

text \<open>\<open>filepath.Join\<close> of two elements. Paths are only keys of the file system oracle
  below, so the cleaning that \<open>filepath.Join\<close> also does is left out.\<close>

definition path_join :: "string \<Rightarrow> string \<Rightarrow> string" where
  "path_join a b = a @ ''/'' @ b"

section \<open>The data model of \<open>manager/main.go\<close>\<close>

text \<open>
  \<open>BatchJob\<close> and \<open>BatchProcess\<close>, field by field. The status fields are Go strings and stay
  strings. A \<open>time.Time\<close> is a number of nanoseconds, its zero value (``not set'') is \<open>None\<close>.
  The two records both have a \<open>Status\<close> and a \<open>Progress\<close> in Go; the batch's are named
  \<open>BatchStatus\<close> and \<open>BatchProgress\<close> here. The mutex \<open>mu\<close> has no content; the accesses it
  guards are modelled in the section on the lock discipline. \<open>clients\<close> holds channel handles.
\<close>

record BatchJob =
  ModelNumber :: string
  URL :: string
  Status :: string
  Error :: string
  Progress :: int
  ParseDescription :: "string option"

record BatchProcess =
  ID :: string
  Jobs :: "BatchJob list"
  BatchStatus :: string
  BatchProgress :: int
  StartTime :: nat
  EndTime :: "nat option"
  clients :: "nat list"

text \<open>\<open>ParseResponse\<close>: the fields \<open>processURL\<close> and \<open>saveResults\<close> read. An image match is
  kept as its url and context (its \<open>float64\<close> confidence is never inspected).\<close>

record ParseResponse =
  SiteID :: string
  ImageMatches :: "(string \<times> string) list"
  DownloadedFiles :: "string list"
  PDFLinks :: "string list"
  RespStatus :: string
  RespError :: string

text \<open>An HTTP response as \<open>processURL\<close> uses it: the status code, and what \<open>io.ReadAll\<close> gives
  on the body (\<open>Inl\<close> the read error, \<open>Inr\<close> the bytes).\<close>

record http_response =
  StatusCode :: int
  Body :: "string + string"

text \<open>
  What the job's surroundings answer. \<open>client.Post\<close> returns a pair \<open>(resp, err)\<close>; the code
  tests \<open>err\<close> inside the loop and \<open>resp\<close> after it, so the pair is kept as it is, one pair
  per attempt (attempts are numbered from 0). An error value is kept as its text.
  \<open>json.Unmarshal\<close> is a library function: \<open>unmarshalError\<close> decodes the body into the
  anonymous error struct (\<open>Inl\<close> the decoding error, \<open>Inr\<close> the \<open>Error\<close> field),
  \<open>unmarshalResponse\<close> into a \<open>ParseResponse\<close>. \<open>mkdirAll\<close> and \<open>writeFile\<close> answer
  \<open>os.MkdirAll\<close> and \<open>os.WriteFile\<close> for a path (\<open>None\<close>: no error).
\<close>

record env =
  mkdirAll :: "string \<Rightarrow> string option"
  writeFile :: "string \<Rightarrow> string option"
  post :: "nat \<Rightarrow> http_response option \<times> string option"
  unmarshalError :: "string \<Rightarrow> string + string"
  unmarshalResponse :: "string \<Rightarrow> string + ParseResponse"

datatype effect = Sleep nat | Post nat

datatype proc_error =
    CreateDirFailed string
  | FailedAfter nat "string option"
  | ReadFailed string
  | ServerError int string
  | ParseFailed string
  | ProcessingFailed string
  | SaveFailed string

text \<open>The text of each error, as the \<open>fmt.Errorf\<close> calls build it (\<open>%v\<close> of a nil error
  prints \<open><nil>\<close>).\<close>

definition fmt_v :: "string option \<Rightarrow> string" where
  "fmt_v e = (case e of None \<Rightarrow> ''<nil>'' | Some t \<Rightarrow> t)"

fun error_text :: "proc_error \<Rightarrow> string" where
  "error_text (CreateDirFailed e) = ''failed to create directory: '' @ e"
| "error_text (FailedAfter n e) = ''failed after '' @ fmt_d (int n) @ '' attempts: '' @ fmt_v e"
| "error_text (ReadFailed e) = ''failed to read response: '' @ e"
| "error_text (ServerError c m) = ''server error (status '' @ fmt_d c @ ''): '' @ m"
| "error_text (ParseFailed e) = ''failed to parse response: '' @ e"
| "error_text (ProcessingFailed e) = ''processing failed: '' @ e"
| "error_text (SaveFailed e) = ''failed to save results: '' @ e"

section \<open>\<open>processURL\<close> and \<open>saveResults\<close>\<close>

definition maxRetries :: nat where
  "maxRetries = 3"

definition retryDelay :: nat where
  "retryDelay = 5"

text \<open>
  The retry loop \<open>for attempt := 0; attempt < maxRetries; attempt++\<close>. The second argument
  is the number of iterations left (\<open>maxRetries - attempt\<close>). The state of the loop is
  \<open>resp\<close>, \<open>lastErr\<close> and the effects so far (each sleep, in seconds, and each request).
\<close>

fun request_loop ::
  "(nat \<Rightarrow> http_response option \<times> string option) \<Rightarrow> nat \<Rightarrow> nat \<Rightarrow>
   http_response option \<Rightarrow> string option \<Rightarrow> effect list \<Rightarrow>
   http_response option \<times> string option \<times> effect list" where
  "request_loop p 0 attempt resp lastErr tr = (resp, lastErr, tr)"
| "request_loop p (Suc left) attempt resp lastErr tr =
     (let tr1 = (if attempt > 0 then tr @ [Sleep retryDelay] else tr);
          tr2 = tr1 @ [Post attempt]
      in case p attempt of
           (r, None) \<Rightarrow> (r, lastErr, tr2)
         | (r, Some e) \<Rightarrow> request_loop p left (Suc attempt) r (Some e) tr2)"

text \<open>\<open>saveResults\<close>: \<open>Some\<close> the error, \<open>None\<close> for \<open>nil\<close>. \<open>json.MarshalIndent\<close> of a value
  that \<open>json.Unmarshal\<close> produced does not fail, so its two error branches have no input.\<close>

definition saveResults :: "env \<Rightarrow> string \<Rightarrow> ParseResponse \<Rightarrow> string option" where
  "saveResults E modelDir result =
     (let resultsDir = path_join modelDir ''results'' in
      case mkdirAll E resultsDir of
        Some e \<Rightarrow> Some (''failed to create results directory: '' @ e)
      | None \<Rightarrow>
         (case writeFile E (path_join resultsDir ''parse_results.json'') of
            Some e \<Rightarrow> Some (''failed to write results file: '' @ e)
          | None \<Rightarrow>
             (case (if length (ImageMatches result) > 0
                    then writeFile E (path_join resultsDir ''image_matches.csv'') else None) of
                Some e \<Rightarrow> Some (''failed to write image matches file: '' @ e)
              | None \<Rightarrow>
                 (case (if length (PDFLinks result) > 0
                        then writeFile E (path_join resultsDir ''pdf_links.txt'') else None) of
                    Some e \<Rightarrow> Some (''failed to write PDF links file: '' @ e)
                  | None \<Rightarrow> None))))"

text \<open>What \<open>processURL\<close> does once the loop has left a response: read the body, look at the
  status code, decode, check the service's own status, save.\<close>

definition handle_response :: "env \<Rightarrow> string \<Rightarrow> http_response \<Rightarrow> proc_error option" where
  "handle_response E modelDir resp =
     (case Body resp of
        Inl e \<Rightarrow> Some (ReadFailed e)
      | Inr body \<Rightarrow>
         if StatusCode resp \<noteq> 200 then
           (case unmarshalError E body of
              Inl _ \<Rightarrow> Some (ServerError (StatusCode resp) body)
            | Inr msg \<Rightarrow> Some (ServerError (StatusCode resp) msg))
         else
           (case unmarshalResponse E body of
              Inl e \<Rightarrow> Some (ParseFailed e)
            | Inr parseResponse \<Rightarrow>
               if RespStatus parseResponse \<noteq> ''success''
               then Some (ProcessingFailed (RespError parseResponse))
               else (case saveResults E modelDir parseResponse of
                       Some e \<Rightarrow> Some (SaveFailed e)
                     | None \<Rightarrow> None)))"

text \<open>\<open>processURL\<close> returns its error (\<open>None\<close> for \<open>nil\<close>) and the effects of the retry loop.
  \<open>json.Marshal\<close> of a \<open>ParseRequest\<close> (strings, a float constant and a bool) cannot fail.\<close>

definition processURL :: "env \<Rightarrow> BatchJob \<Rightarrow> string \<Rightarrow> proc_error option \<times> effect list" where
  "processURL E job baseDir =
     (let modelDir = path_join baseDir (ModelNumber job) in
      case mkdirAll E modelDir of
        Some e \<Rightarrow> (Some (CreateDirFailed e), [])
      | None \<Rightarrow>
         (case request_loop (post E) maxRetries 0 None None [] of
            (None, lastErr, tr) \<Rightarrow> (Some (FailedAfter maxRetries lastErr), tr)
          | (Some resp, lastErr, tr) \<Rightarrow> (handle_response E modelDir resp, tr)))"

text \<open>The body of a worker for one job taken from the queue.\<close>

definition worker :: "env \<Rightarrow> BatchJob \<Rightarrow> BatchJob" where
  "worker E job =
     (case fst (processURL E job ''./data'') of
        Some err \<Rightarrow> job\<lparr>Status := ''failed'', Error := error_text err\<rparr>
      | None \<Rightarrow> job\<lparr>Status := ''completed''\<rparr>)"

section \<open>\<open>updateJob\<close>, \<open>notifyClients\<close> and the collector of \<open>startProcessing\<close>\<close>

text \<open>\<open>updateJob\<close>: the scan over \<open>bp.Jobs\<close> replaces the first entry with the job's model
  number and url, and stops there (\<open>break\<close>).\<close>

fun update_first :: "BatchJob \<Rightarrow> BatchJob list \<Rightarrow> BatchJob list" where
  "update_first job [] = []"
| "update_first job (j # js) =
     (if ModelNumber j = ModelNumber job \<and> URL j = URL job then job # js
      else j # update_first job js)"

definition updateJob :: "BatchProcess \<Rightarrow> BatchJob \<Rightarrow> BatchProcess" where
  "updateJob bp job = bp\<lparr>Jobs := update_first job (Jobs bp)\<rparr>"

text \<open>
  The collector goroutine. Its state is the batch, the local counter \<open>completed\<close>, whether
  \<open>results\<close> has been closed, and what \<open>notifyClients\<close> has announced: each call issues one
  signal to every client for the batch as it is at that moment, recorded as that batch.
  \<open>tot\<close> is the local \<open>total\<close>, read once, before the loop; \<open>now\<close> is what \<open>time.Now()\<close> answers.
  Both operands of the division are non-negative, where Go's \<open>/\<close> is \<open>div\<close>; Go's \<open>int\<close>
  has 64 bits, and \<open>completed * 100\<close> stays far below \<open>2^63\<close> for any job list that fits
  in memory, so the integers are modelled without a bound.
\<close>

record collector =
  proc :: BatchProcess
  completed :: int
  results_closed :: bool
  notified :: "BatchProcess list"

definition notifyClients :: "collector \<Rightarrow> collector" where
  "notifyClients c = c\<lparr>notified := notified c @ [proc c]\<rparr>"

definition collect_step :: "nat \<Rightarrow> int \<Rightarrow> collector \<Rightarrow> BatchJob \<Rightarrow> collector" where
  "collect_step now tot c job =
     (let c1 = c\<lparr>completed := completed c + 1\<rparr>;
          c2 = c1\<lparr>proc := updateJob (proc c1) job\<rparr>;
          c3 = c2\<lparr>proc := (proc c2)\<lparr>BatchProgress := (completed c2 * 100) div tot\<rparr>\<rparr>;
          c4 = notifyClients c3
      in if completed c4 = tot then
           (let c5 = c4\<lparr>results_closed := True\<rparr>;
                c6 = c5\<lparr>proc := (proc c5)\<lparr>BatchStatus := ''completed''\<rparr>\<rparr>;
                c7 = c6\<lparr>proc := (proc c6)\<lparr>EndTime := Some now\<rparr>\<rparr>
            in notifyClients c7)
         else c4)"

fun collect_results :: "nat \<Rightarrow> int \<Rightarrow> collector \<Rightarrow> BatchJob list \<Rightarrow> collector" where
  "collect_results now tot c [] = c"
| "collect_results now tot c (job # rs) =
     collect_results now tot (collect_step now tot c job) rs"

text \<open>
  \<open>startProcessing\<close>. Every queued job is worked on once, by one of the workers, and its
  result is sent to \<open>results\<close>; \<open>sched\<close> lists the indices of the jobs in the order in which
  their results arrive (a permutation of the indices when the batch has run), and job \<open>i\<close>
  meets the surroundings \<open>envs i\<close>. The collector receives the results in that order. With
  no job there is no result, so the body of the loop, and its division by \<open>total\<close>, does not
  run; and since every job sends one result, none arrives after \<open>results\<close> is closed.
\<close>

definition startProcessing ::
  "(nat \<Rightarrow> env) \<Rightarrow> nat \<Rightarrow> nat list \<Rightarrow> BatchProcess \<Rightarrow> collector" where
  "startProcessing envs now sched bp =
     (let bp1 = bp\<lparr>BatchStatus := ''processing''\<rparr>;
          tot = int (length (Jobs bp1));
          results = map (\<lambda>i. worker (envs i) (Jobs bp1 ! i)) sched
      in collect_results now tot
           \<lparr>proc = bp1, completed = 0, results_closed = False, notified = []\<rparr> results)"

text \<open>A job is identified in its batch by the pair of its model number and url.\<close>

definition job_key :: "BatchJob \<Rightarrow> string \<times> string" where
  "job_key j = (ModelNumber j, URL j)"



section \<open>The lock discipline of \<open>startProcessing\<close>, \<open>updateJob\<close> and \<open>notifyClients\<close>\<close>

text \<open>
  What a goroutine does to the batch, in program order: it takes or releases \<open>bp.mu\<close>, or it
  reads or writes a field of the batch. The lists below follow the statements of the source
  one by one. \<open>updateJob\<close> locks, scans \<open>bp.Jobs\<close>, writes the matching entry when there is
  one, and unlocks on return (\<open>defer\<close>). \<open>notifyClients\<close> locks, reads the fields of its
  \<open>update\<close> and the clients, and unlocks on return. The collector reads \<open>len(bp.Jobs)\<close> once
  and then, for every result, calls \<open>updateJob\<close>, assigns \<open>bp.Progress\<close>, calls
  \<open>notifyClients\<close> and, at the last result, assigns \<open>bp.Status\<close> and \<open>bp.EndTime\<close> and calls
  \<open>notifyClients\<close> again.
\<close>

datatype field = FID | FJobs | FStatus | FProgress | FEndTime | FClients

datatype access = Lock | Unlock | Read field | Write field

definition updateJob_accesses :: "BatchProcess \<Rightarrow> BatchJob \<Rightarrow> access list" where
  "updateJob_accesses bp job =
     [Lock, Read FJobs] @
     (if job_key job \<in> set (map job_key (Jobs bp)) then [Write FJobs] else []) @
     [Unlock]"

definition notifyClients_accesses :: "access list" where
  "notifyClients_accesses =
     [Lock, Read FID, Read FStatus, Read FProgress, Read FJobs, Read FClients, Unlock]"

definition collect_step_accesses :: "int \<Rightarrow> collector \<Rightarrow> BatchJob \<Rightarrow> access list" where
  "collect_step_accesses tot c job =
     updateJob_accesses (proc c) job @
     [Write FProgress] @
     notifyClients_accesses @
     (if completed c + 1 = tot
      then [Write FStatus, Write FEndTime] @ notifyClients_accesses
      else [])"

fun collect_accesses :: "nat \<Rightarrow> int \<Rightarrow> collector \<Rightarrow> BatchJob list \<Rightarrow> access list" where
  "collect_accesses now tot c [] = []"
| "collect_accesses now tot c (job # rs) =
     collect_step_accesses tot c job @ collect_accesses now tot (collect_step now tot c job) rs"

definition collector_accesses ::
  "(nat \<Rightarrow> env) \<Rightarrow> nat \<Rightarrow> nat list \<Rightarrow> BatchProcess \<Rightarrow> access list" where
  "collector_accesses envs now sched bp =
     (let bp1 = bp\<lparr>BatchStatus := ''processing''\<rparr>;
          tot = int (length (Jobs bp1));
          results = map (\<lambda>i. worker (envs i) (Jobs bp1 ! i)) sched
      in Read FJobs #
         collect_accesses now tot
           \<lparr>proc = bp1, completed = 0, results_closed = False, notified = []\<rparr> results)"

text \<open>The discipline: every read and every write of a field happens while the lock is held.
  The first argument says whether the goroutine holds the lock.\<close>

fun guarded :: "bool \<Rightarrow> access list \<Rightarrow> bool" where
  "guarded held [] = True"
| "guarded held (Lock # as) = guarded True as"
| "guarded held (Unlock # as) = guarded False as"
| "guarded held (Read f # as) = (held \<and> guarded held as)"
| "guarded held (Write f # as) = (held \<and> guarded held as)"

text \<open>The accesses made outside the lock, in program order.\<close>

fun unguarded :: "bool \<Rightarrow> access list \<Rightarrow> access list" where
  "unguarded held [] = []"
| "unguarded held (Lock # as) = unguarded True as"
| "unguarded held (Unlock # as) = unguarded False as"
| "unguarded held (Read f # as) = (if held then unguarded held as else Read f # unguarded held as)"
| "unguarded held (Write f # as) =
     (if held then unguarded held as else Write f # unguarded held as)"

section \<open>\<open>handleFileUpload\<close>\<close>

text \<open>
  The uploaded file as \<open>csv.Reader\<close> sees it, line by line: a line it cannot lex, or the
  fields of a record. The reader is used with its default \<open>FieldsPerRecord = 0\<close>: the header
  fixes the number of fields, and \<open>Read\<close> returns an error for a record with another number.
  \<open>form_ok\<close> is whether \<open>ParseMultipartForm\<close> succeeded; \<open>csv_file\<close> is the form file \<open>file\<close> when there
  is one. The optional \<open>config\<close> file only assigns the globals \<open>numWorkers\<close> and \<open>timeout\<close>,
  which nothing modelled here reads.
\<close>

datatype csv_line = Malformed | Fields "string list"

record upload =
  form_ok :: bool
  csv_file :: "csv_line list option"

datatype upload_error =
    FileTooLarge
  | FailedToRetrieveFile
  | FailedToReadHeader
  | MissingRequiredColumn
  | ErrorReadingCSV
  | NoValidJobs

fun getColumnIndex_from :: "int \<Rightarrow> string list \<Rightarrow> string \<Rightarrow> int" where
  "getColumnIndex_from i [] columnName = -1"
| "getColumnIndex_from i (header # hs) columnName =
     (if ToLower (TrimSpace header) = ToLower columnName then i
      else getColumnIndex_from (i + 1) hs columnName)"

definition getColumnIndex :: "string list \<Rightarrow> string \<Rightarrow> int" where
  "getColumnIndex headers columnName = getColumnIndex_from 0 headers columnName"

text \<open>The loop over the headers that fills \<open>requiredColumns\<close>: a later header with the same
  name overwrites the index of an earlier one.\<close>

fun scan_headers :: "int \<Rightarrow> string list \<Rightarrow> (string \<rightharpoonup> int) \<Rightarrow> (string \<rightharpoonup> int)" where
  "scan_headers i [] requiredColumns = requiredColumns"
| "scan_headers i (header # hs) requiredColumns =
     (let h = ToLower (TrimSpace header)
      in scan_headers (i + 1) hs
           (case requiredColumns h of None \<Rightarrow> requiredColumns
            | Some _ \<Rightarrow> requiredColumns(h \<mapsto> i)))"

text \<open>Reading a key of a Go map of ints: the zero value when the key is missing.\<close>

definition index_of :: "(string \<rightharpoonup> int) \<Rightarrow> string \<Rightarrow> int" where
  "index_of m k = (case m k of None \<Rightarrow> 0 | Some i \<Rightarrow> i)"

text \<open>The loop that reads the records and appends one job per record. Every record that the
  reader returns becomes a job; no field of it is inspected but the optional description.\<close>

fun read_jobs ::
  "string list \<Rightarrow> (string \<rightharpoonup> int) \<Rightarrow> csv_line list \<Rightarrow> BatchJob list \<Rightarrow>
   upload_error + BatchJob list" where
  "read_jobs headers requiredColumns [] jobs = Inr jobs"
| "read_jobs headers requiredColumns (Malformed # ls) jobs = Inl ErrorReadingCSV"
| "read_jobs headers requiredColumns (Fields rec # ls) jobs =
     (if length rec \<noteq> length headers then Inl ErrorReadingCSV
      else
        let job = \<lparr>ModelNumber = rec ! nat (index_of requiredColumns ''model_number''),
                   URL = rec ! nat (index_of requiredColumns ''url''),
                   Status = ''pending'', Error = [], Progress = 0, ParseDescription = None\<rparr>;
            descriptionIdx = getColumnIndex headers ''parse_description'';
            job1 = (if descriptionIdx \<noteq> -1 \<and> descriptionIdx < int (length rec)
                    then (let description = rec ! nat descriptionIdx
                          in if description \<noteq> [] then job\<lparr>ParseDescription := Some description\<rparr>
                             else job)
                    else job)
        in read_jobs headers requiredColumns ls (jobs @ [job1]))"

text \<open>\<open>handleFileUpload\<close> returns the error of the response or the batch it has created, and
  the registry \<open>processes\<close> after it. \<open>now\<close> is what \<open>time.Now()\<close> answers.\<close>

definition handleFileUpload ::
  "nat \<Rightarrow> upload \<Rightarrow> (string \<rightharpoonup> BatchProcess) \<Rightarrow>
   (upload_error + BatchProcess) \<times> (string \<rightharpoonup> BatchProcess)" where
  "handleFileUpload now r processes =
     (if \<not> form_ok r then (Inl FileTooLarge, processes)
      else case csv_file r of
        None \<Rightarrow> (Inl FailedToRetrieveFile, processes)
      | Some [] \<Rightarrow> (Inl FailedToReadHeader, processes)
      | Some (Malformed # ls) \<Rightarrow> (Inl FailedToReadHeader, processes)
      | Some (Fields headers # ls) \<Rightarrow>
         (let requiredColumns =
                scan_headers 0 headers [''url'' \<mapsto> -1, ''model_number'' \<mapsto> -1]
          in if index_of requiredColumns ''url'' = -1 \<or>
                index_of requiredColumns ''model_number'' = -1
             then (Inl MissingRequiredColumn, processes)
             else
               case read_jobs headers requiredColumns ls [] of
                 Inl e \<Rightarrow> (Inl e, processes)
               | Inr jobs \<Rightarrow>
                  if length jobs = 0 then (Inl NoValidJobs, processes)
                  else
                    (let process = \<lparr>ID = ''batch_'' @ fmt_d (int now), Jobs = jobs,
                           BatchStatus = ''pending'', BatchProgress = 0, StartTime = now,
                           EndTime = None, clients = []\<rparr>
                     in (Inr process, processes(ID process \<mapsto> process)))))"

section \<open>\<open>parseWithGemini\<close> of \<open>manager/parser.go\<close>\<close>

text \<open>
  A value of type \<open>interface{}\<close> as it occurs in \<open>parseWithGemini\<close>. \<open>json.Unmarshal\<close>
  into a \<open>map[string]interface{}\<close> stores a \<open>string\<close>, a \<open>float64\<close> (kept as the text of its
  literal; it is never inspected), a \<open>bool\<close>, \<open>nil\<close>, a \<open>[]interface{}\<close> for a JSON array
  and a \<open>map[string]interface{}\<close> for a JSON object. The code itself also stores values
  of type \<open>[]string\<close>, which is a different dynamic type from \<open>[]interface{}\<close>.
\<close>

datatype gvalue =
    VString string
  | VNumber string
  | VBool bool
  | VNil
  | VArray "gvalue list"
  | VObject "(string \<times> gvalue) list"
  | VStrings "string list"

type_synonym gomap = "string \<rightharpoonup> gvalue"

text \<open>An element of \<open>foundResults\<close>: a record or a text.\<close>

datatype found = FRecord gomap | FText string

text \<open>What \<open>json.Unmarshal\<close> does to a \<open>map[string]interface{}\<close> variable: an error, nothing
  (the JSON text \<open>null\<close> leaves the map nil, with no error), or a map.\<close>

datatype unmarshalled = UError | UNil | UMap gomap

datatype parse_error =
    AcquireFailed string
  | RequestFailed string
  | Panic string

datatype merged = MText string | MRecord gomap

text \<open>
  The surroundings of one call of \<open>parseWithGemini\<close>: the error of \<open>p.sem.Acquire\<close> if any;
  the answer of \<open>p.client.CreateChatCompletion\<close> to the request for the group that starts
  at chunk \<open>i\<close> (\<open>Inl\<close> the error, \<open>Inr\<close> the contents of the choices of the response); and
  \<open>json.Unmarshal\<close>.
\<close>

record parser_env =
  acquire :: "string option"
  chat :: "nat \<Rightarrow> string \<Rightarrow> string + string list"
  unmarshalObject :: "string \<Rightarrow> unmarshalled"

fun Contains :: "string \<Rightarrow> string \<Rightarrow> bool" where
  "Contains [] substr = (substr = [])"
| "Contains (c # cs) substr = (take (length substr) (c # cs) = substr \<or> Contains cs substr)"

fun containsAny :: "string \<Rightarrow> string list \<Rightarrow> bool" where
  "containsAny s [] = False"
| "containsAny s (substr # rest) = (Contains s substr \<or> containsAny s rest)"

definition ensureKeyExists :: "gomap \<Rightarrow> string \<Rightarrow> gvalue \<Rightarrow> gomap" where
  "ensureKeyExists m key defaultValue =
     (case m key of None \<Rightarrow> m(key \<mapsto> defaultValue) | Some _ \<Rightarrow> m)"

text \<open>The groups of \<open>chunkSize = 3\<close> chunks, in order: \<open>domChunks[i:min(i+3, len)]\<close> for
  \<open>i = 0, 3, 6, ...\<close>.\<close>

fun chunk_groups :: "string list \<Rightarrow> string list list" where
  "chunk_groups [] = []"
| "chunk_groups (a # b # c # rest) = [a, b, c] # chunk_groups rest"
| "chunk_groups short = [short]"

text \<open>The test under which the loop \<open>continue\<close>s, on the trimmed content.\<close>

definition no_result :: "string \<Rightarrow> bool" where
  "no_result content =
     (content = [] \<or> ToLower content = ''no match'' \<or> ToLower content = ''not found'' \<or>
      ToLower content = ''no information'')"

text \<open>The inner loop over \<open>user_manual\<close> and \<open>other_documents\<close>, for one key.\<close>

definition wrap_string :: "gomap \<Rightarrow> string \<Rightarrow> gomap" where
  "wrap_string result key =
     (case result key of
        Some (VString val) \<Rightarrow>
          if val \<noteq> ''NO_MATCH'' then result(key \<mapsto> VStrings [val]) else result
      | _ \<Rightarrow> result)"

text \<open>What the code does to a decoded record before it appends it to \<open>foundResults\<close>: the
  six calls of \<open>ensureKeyExists\<close> and the loop over \<open>user_manual\<close> and \<open>other_documents\<close>.\<close>

definition backfill :: "gomap \<Rightarrow> gomap" where
  "backfill result =
     (let r1 = ensureKeyExists result ''name'' (VString ''NO_MATCH'');
          r2 = ensureKeyExists r1 ''model_number'' (VString ''NO_MATCH'');
          r3 = ensureKeyExists r2 ''serial_number'' (VString ''NO_MATCH'');
          r4 = ensureKeyExists r3 ''warranty_info'' (VString ''NO_MATCH'');
          r5 = ensureKeyExists r4 ''user_manual'' (VStrings []);
          r6 = ensureKeyExists r5 ''other_documents'' (VStrings []);
          r7 = wrap_string r6 ''user_manual''
      in wrap_string r7 ''other_documents'')"

text \<open>The record that a content yields for a product-information query. Assigning to an
  entry of a nil map panics.\<close>

definition product_record :: "(string \<Rightarrow> unmarshalled) \<Rightarrow> string \<Rightarrow> parse_error + gomap" where
  "product_record unm content =
     (case unm content of
        UError \<Rightarrow> Inr [''raw_content'' \<mapsto> VString content]
      | UNil \<Rightarrow> Inl (Panic ''assignment to entry in nil map'')
      | UMap result \<Rightarrow> Inr (backfill result))"

text \<open>
  The loop over the groups. Its state is the index \<open>i\<close> of the first chunk of the group,
  \<open>foundResults\<close>, and the number of requests made so far, which is returned with the result.
  An error of the request returns at once; indexing \<open>resp.Choices[0]\<close> of a response without
  choices panics.
\<close>

fun request_groups ::
  "parser_env \<Rightarrow> bool \<Rightarrow> nat \<Rightarrow> string list list \<Rightarrow> found list \<Rightarrow> nat \<Rightarrow>
   (parse_error + found list) \<times> nat" where
  "request_groups P isProductInfo i [] foundResults calls = (Inr foundResults, calls)"
| "request_groups P isProductInfo i (g # gs) foundResults calls =
     (let chunkGroup = Join g '' '' in
      case chat P i chunkGroup of
        Inl err \<Rightarrow> (Inl (RequestFailed err), Suc calls)
      | Inr [] \<Rightarrow> (Inl (Panic ''index out of range''), Suc calls)
      | Inr (choice # _) \<Rightarrow>
          (let content = TrimSpace choice in
           if no_result content
           then request_groups P isProductInfo (i + 3) gs foundResults (Suc calls)
           else if isProductInfo then
             (case product_record (unmarshalObject P) content of
                Inl e \<Rightarrow> (Inl e, Suc calls)
              | Inr result \<Rightarrow>
                  request_groups P isProductInfo (i + 3) gs
                    (foundResults @ [FRecord result]) (Suc calls))
           else request_groups P isProductInfo (i + 3) gs
                  (foundResults @ [FText content]) (Suc calls)))"

text \<open>
  The merge of one record into \<open>combinedResults\<close>. The Go loop \<open>for k, v := range result\<close>
  visits every key of the record once, in no specified order, and its body reads and writes
  \<open>combinedResults[k]\<close> only; so the loop is the update of every key by \<open>merge_value\<close>.
  \<open>combinedResults\<close> holds a \<open>[]string\<close> under \<open>user_manual\<close> and \<open>other_documents\<close> from
  the start, and that branch only stores a \<open>[]string\<close>, so its type assertion does not fail.
\<close>

definition merge_value :: "string \<Rightarrow> gvalue \<Rightarrow> gvalue option \<Rightarrow> gvalue option" where
  "merge_value k v cur =
     (if k = ''user_manual'' \<or> k = ''other_documents'' then
        (case v of
           VStrings list \<Rightarrow>
             (case cur of Some (VStrings acc) \<Rightarrow> Some (VStrings (acc @ list)) | _ \<Rightarrow> cur)
         | VString str \<Rightarrow>
             if str \<noteq> ''NO_MATCH''
             then (case cur of Some (VStrings acc) \<Rightarrow> Some (VStrings (acc @ [str])) | _ \<Rightarrow> cur)
             else cur
         | _ \<Rightarrow> cur)
      else
        (case v of
           VString str \<Rightarrow>
             if str \<noteq> ''NO_MATCH''
             then (case cur of
                     Some (VString c) \<Rightarrow> if c = ''NO_MATCH'' then Some (VString str) else cur
                   | _ \<Rightarrow> cur)
             else cur
         | _ \<Rightarrow> cur))"

definition merge_record :: "gomap \<Rightarrow> gomap \<Rightarrow> gomap" where
  "merge_record combinedResults result =
     (\<lambda>k. case result k of
             None \<Rightarrow> combinedResults k
           | Some v \<Rightarrow> merge_value k v (combinedResults k))"

definition combined_init :: gomap where
  "combined_init =
     [''name'' \<mapsto> VString ''NO_MATCH'',
      ''model_number'' \<mapsto> VString ''NO_MATCH'',
      ''serial_number'' \<mapsto> VString ''NO_MATCH'',
      ''warranty_info'' \<mapsto> VString ''NO_MATCH'',
      ''user_manual'' \<mapsto> VStrings [],
      ''other_documents'' \<mapsto> VStrings [],
      ''additional_info'' \<mapsto> VStrings []]"

text \<open>The loop over \<open>foundResults\<close>. A record with a key \<open>raw_content\<close> only adds that
  content to \<open>additional_info\<close> (the assertion \<open>rawContent.(string)\<close> panics on another
  type); an element that is not a map makes \<open>result.(map[string]interface{})\<close> panic.\<close>

fun merge_found :: "gomap \<Rightarrow> found list \<Rightarrow> parse_error + gomap" where
  "merge_found combinedResults [] = Inr combinedResults"
| "merge_found combinedResults (FText t # rest) = Inl (Panic ''interface conversion'')"
| "merge_found combinedResults (FRecord result # rest) =
     (case result ''raw_content'' of
        Some (VString rawContent) \<Rightarrow>
          merge_found
            (case combinedResults ''additional_info'' of
               Some (VStrings acc) \<Rightarrow>
                 combinedResults(''additional_info'' \<mapsto> VStrings (acc @ [rawContent]))
             | _ \<Rightarrow> combinedResults)
            rest
      | Some _ \<Rightarrow> Inl (Panic ''interface conversion'')
      | None \<Rightarrow> merge_found (merge_record combinedResults result) rest)"

text \<open>\<open>dedupeStringSlice\<close>: \<open>allKeys\<close> is the set of the items seen, \<open>list\<close> the items kept.\<close>

fun dedupe_loop :: "string list \<Rightarrow> string set \<Rightarrow> string list \<Rightarrow> string list" where
  "dedupe_loop [] allKeys list = list"
| "dedupe_loop (item # rest) allKeys list =
     (if item \<in> allKeys then dedupe_loop rest allKeys list
      else dedupe_loop rest (insert item allKeys) (list @ [item]))"

definition dedupeStringSlice :: "gomap \<Rightarrow> string \<Rightarrow> gomap" where
  "dedupeStringSlice m key =
     (case m key of
        Some (VStrings slice) \<Rightarrow> m(key \<mapsto> VStrings (dedupe_loop slice {} []))
      | _ \<Rightarrow> m)"

text \<open>The structured merge: the second half of \<open>parseWithGemini\<close> for a product-information
  query, from \<open>foundResults\<close> to \<open>combinedResults\<close>.\<close>

definition combine_product :: "found list \<Rightarrow> parse_error + gomap" where
  "combine_product foundResults =
     (case merge_found combined_init foundResults of
        Inl e \<Rightarrow> Inl e
      | Inr c \<Rightarrow>
          Inr (dedupeStringSlice
                (dedupeStringSlice (dedupeStringSlice c ''user_manual'') ''other_documents'')
                ''additional_info''))"

fun interfaceSliceToStringSlice :: "found list \<Rightarrow> parse_error + string list" where
  "interfaceSliceToStringSlice [] = Inr []"
| "interfaceSliceToStringSlice (FText t # rest) =
     (case interfaceSliceToStringSlice rest of Inl e \<Rightarrow> Inl e | Inr out \<Rightarrow> Inr (t # out))"
| "interfaceSliceToStringSlice (FRecord m # rest) = Inl (Panic ''interface conversion'')"

definition parseWithGemini ::
  "parser_env \<Rightarrow> string list \<Rightarrow> string \<Rightarrow> (parse_error + merged) \<times> nat" where
  "parseWithGemini P domChunks parseDescription =
     (case acquire P of
        Some e \<Rightarrow> (Inl (AcquireFailed e), 0)
      | None \<Rightarrow>
         (let isProductInfo = containsAny (ToLower parseDescription)
                [''extract product'', ''product information'', ''product details'']
          in case request_groups P isProductInfo 0 (chunk_groups domChunks) [] 0 of
               (Inl e, calls) \<Rightarrow> (Inl e, calls)
             | (Inr foundResults, calls) \<Rightarrow>
                 if length foundResults = 0 then (Inr (MText ''NO_MATCH''), calls)
                 else if isProductInfo then
                   (case combine_product foundResults of
                      Inl e \<Rightarrow> (Inl e, calls)
                    | Inr combinedResults \<Rightarrow> (Inr (MRecord combinedResults), calls))
                 else
                   (case interfaceSliceToStringSlice foundResults of
                      Inl e \<Rightarrow> (Inl e, calls)
                    | Inr texts \<Rightarrow> (Inr (MText (Join texts [CHR 0x0A])), calls))))"

section \<open>Notions the statements use\<close>




text \<open>The sequences of found results on which the structured merge does not panic: every
  element is a record, and what a record stores under \<open>raw_content\<close>, if anything, is a
  string.\<close>

fun mergeable :: "found list \<Rightarrow> bool" where
  "mergeable [] = True"
| "mergeable (FText t # rest) = False"
| "mergeable (FRecord r # rest) =
     ((case r ''raw_content'' of None \<Rightarrow> True | Some (VString _) \<Rightarrow> True | Some _ \<Rightarrow> False)
      \<and> mergeable rest)"

text \<open>The document links a record contributes under a key, when it stores them as Go
  strings (one string, or a \<open>[]string\<close>).\<close>

definition links_of :: "string \<Rightarrow> found \<Rightarrow> string list" where
  "links_of k f =
     (case f of
        FText t \<Rightarrow> []
      | FRecord r \<Rightarrow>
          if r ''raw_content'' = None then
            (case r k of
               Some (VStrings list) \<Rightarrow> list
             | Some (VString str) \<Rightarrow> if str \<noteq> ''NO_MATCH'' then [str] else []
             | _ \<Rightarrow> [])
          else [])"

text \<open>Union with de-duplication, in first-seen order.\<close>

fun first_seen :: "string list \<Rightarrow> string list" where
  "first_seen [] = []"
| "first_seen (x # xs) = x # first_seen (filter (\<lambda>y. y \<noteq> x) xs)"

section \<open>Example values\<close>

definition demo_env :: env where
  "demo_env = \<lparr>mkdirAll = (\<lambda>_. None), writeFile = (\<lambda>_. None),
     post = (\<lambda>_. (Some \<lparr>StatusCode = 200, Body = Inr ''ok''\<rparr>, None)),
     unmarshalError = (\<lambda>_. Inl ''invalid character''),
     unmarshalResponse = (\<lambda>_. Inr \<lparr>SiteID = ''site'', ImageMatches = [], DownloadedFiles = [],
        PDFLinks = [], RespStatus = ''success'', RespError = []\<rparr>)\<rparr>"

definition pending_job :: "string \<Rightarrow> string \<Rightarrow> BatchJob" where
  "pending_job m u = \<lparr>ModelNumber = m, URL = u, Status = ''pending'', Error = [],
     Progress = 0, ParseDescription = None\<rparr>"

definition pending_batch :: "BatchJob list \<Rightarrow> BatchProcess" where
  "pending_batch js = \<lparr>ID = ''batch_1'', Jobs = js, BatchStatus = ''pending'',
     BatchProgress = 0, StartTime = 1, EndTime = None, clients = []\<rparr>"




text \<open>A model whose first request fails, and one that finds nothing.\<close>

definition failing_first_call :: parser_env where
  "failing_first_call = \<lparr>acquire = None,
     chat = (\<lambda>i g. if i = 0 then Inl ''context deadline exceeded''
                    else Inr [''Serial: AB123'']),
     unmarshalObject = (\<lambda>_. UError)\<rparr>"


text \<open>An upload with the two required columns and three records, the second with an empty
  url.\<close>

definition three_rows_one_empty_url :: upload where
  "three_rows_one_empty_url = \<lparr>form_ok = True,
     csv_file = Some [Fields [''model_number'', ''url''],
                      Fields [''M1'', ''http://a.example''],
                      Fields [''M2'', []],
                      Fields [''M3'', ''http://c.example'']]\<rparr>"

section \<open>The collector: progress, completion and duplicate jobs\<close>

lemma length_update_first: "length (update_first job js) = length js"
  by (induction js) auto




lemma collect_step_completed:
  "completed (collect_step now tot c job) = completed c + 1"
  by (simp add: collect_step_def notifyClients_def Let_def)

lemma collect_step_Jobs:
  "Jobs (proc (collect_step now tot c job)) = update_first job (Jobs (proc c))"
  by (simp add: collect_step_def notifyClients_def updateJob_def Let_def)

lemma collect_step_progress:
  "BatchProgress (proc (collect_step now tot c job)) = ((completed c + 1) * 100) div tot"
  unfolding collect_step_def notifyClients_def updateJob_def Let_def
  by (cases "completed c + 1 = tot") simp_all

lemmas collect_step_simps = collect_step_completed collect_step_Jobs collect_step_progress

lemma collect_results_append:
  "collect_results now tot c (rs @ [job]) = collect_step now tot (collect_results now tot c rs) job"
  by (induction rs arbitrary: c) auto

lemma collect_results_completed:
  "completed (collect_results now tot c rs) = completed c + int (length rs)"
  by (induction rs arbitrary: c) (auto simp: collect_step_simps)

lemma collect_results_progress:
  "rs \<noteq> [] \<Longrightarrow> BatchProgress (proc (collect_results now tot c rs))
      = ((completed c + int (length rs)) * 100) div tot"
proof (induction rs rule: rev_induct)
  case Nil then show ?case by simp
next
  case (snoc r rs)
  have "BatchProgress (proc (collect_results now tot c (rs @ [r])))
      = ((completed (collect_results now tot c rs) + 1) * 100) div tot"
    by (simp only: collect_results_append collect_step_progress)
  moreover have "completed (collect_results now tot c rs) + 1
      = completed c + int (length (rs @ [r]))"
    by (simp add: collect_results_completed)
  ultimately show ?case by simp
qed


lemma collect_step_not_last:
  assumes "completed c + 1 \<noteq> tot"
  shows "BatchStatus (proc (collect_step now tot c job)) = BatchStatus (proc c)"
    and "EndTime (proc (collect_step now tot c job)) = EndTime (proc c)"
    and "results_closed (collect_step now tot c job) = results_closed c"
    and "notified (collect_step now tot c job)
           = notified c @ [proc (collect_step now tot c job)]"
  using assms by (simp_all add: collect_step_def notifyClients_def updateJob_def Let_def)

lemma collect_step_last:
  assumes "completed c + 1 = tot"
  shows "BatchStatus (proc (collect_step now tot c job)) = ''completed''"
    and "EndTime (proc (collect_step now tot c job)) = Some now"
    and "results_closed (collect_step now tot c job)"
    and "\<exists>p. BatchStatus p = BatchStatus (proc c) \<and>
           notified (collect_step now tot c job)
             = notified c @ [p, proc (collect_step now tot c job)]"
  using assms by (simp_all add: collect_step_def notifyClients_def updateJob_def Let_def)

lemma collect_results_before_last:
  assumes "completed c + int (length rs) < tot"
  shows "BatchStatus (proc (collect_results now tot c rs)) = BatchStatus (proc c) \<and>
         EndTime (proc (collect_results now tot c rs)) = EndTime (proc c) \<and>
         results_closed (collect_results now tot c rs) = results_closed c \<and>
         (\<exists>ns. notified (collect_results now tot c rs) = notified c @ ns \<and>
               length ns = length rs \<and>
               (\<forall>p \<in> set ns. BatchStatus p = BatchStatus (proc c)))"
  using assms
proof (induction rs rule: rev_induct)
  case Nil
  then show ?case by simp
next
  case (snoc r rs)
  let ?c = "collect_results now tot c rs"
  from snoc.prems have lt: "completed c + int (length rs) < tot" by simp
  note ih = snoc.IH[OF lt]
  from snoc.prems have ne: "completed ?c + 1 \<noteq> tot"
    by (simp add: collect_results_completed)
  from ih obtain ns where ns: "notified ?c = notified c @ ns" "length ns = length rs"
    "\<forall>p \<in> set ns. BatchStatus p = BatchStatus (proc c)" by blast
  have st: "BatchStatus (proc (collect_step now tot ?c r)) = BatchStatus (proc c)"
    using collect_step_not_last(1)[OF ne] ih by simp
  have "notified (collect_step now tot ?c r)
          = notified c @ (ns @ [proc (collect_step now tot ?c r)])"
    using collect_step_not_last(4)[OF ne] ns(1) by simp
  moreover have "length (ns @ [proc (collect_step now tot ?c r)]) = length (rs @ [r])"
    using ns(2) by simp
  moreover have "\<forall>p \<in> set (ns @ [proc (collect_step now tot ?c r)]).
                   BatchStatus p = BatchStatus (proc c)"
    using ns(3) st by simp
  ultimately have "\<exists>ms. notified (collect_step now tot ?c r) = notified c @ ms \<and>
               length ms = length (rs @ [r]) \<and>
               (\<forall>p \<in> set ms. BatchStatus p = BatchStatus (proc c))" by blast
  then show ?case
    using st collect_step_not_last(2,3)[OF ne] ih
    by (simp add: collect_results_append)
qed

lemma collect_results_all:
  assumes "rs \<noteq> []" "completed c + int (length rs) = tot"
    "BatchStatus (proc c) \<noteq> ''completed''" "notified c = []"
  shows "BatchStatus (proc (collect_results now tot c rs)) = ''completed'' \<and>
         EndTime (proc (collect_results now tot c rs)) = Some now \<and>
         results_closed (collect_results now tot c rs) \<and>
         last (notified (collect_results now tot c rs)) = proc (collect_results now tot c rs) \<and>
         length (notified (collect_results now tot c rs)) = Suc (length rs) \<and>
         filter (\<lambda>p. BatchStatus p = ''completed'') (notified (collect_results now tot c rs))
           = [proc (collect_results now tot c rs)]"
proof -
  from assms(1) obtain rs' r where rs: "rs = rs' @ [r]"
    by (metis rev_exhaust)
  let ?c = "collect_results now tot c rs'"
  let ?d = "collect_step now tot ?c r"
  have lt: "completed c + int (length rs') < tot" using assms(2) rs by simp
  from collect_results_before_last[OF lt, of now] obtain ns where
    b: "BatchStatus (proc ?c) = BatchStatus (proc c)"
    and ns: "notified ?c = notified c @ ns" "length ns = length rs'"
       "\<forall>p \<in> set ns. BatchStatus p = BatchStatus (proc c)" by blast
  have eq: "completed ?c + 1 = tot"
    using assms(2) rs by (simp add: collect_results_completed)
  from collect_step_last(4)[OF eq, of now r] obtain p where
    p: "BatchStatus p = BatchStatus (proc ?c)" "notified ?d = notified ?c @ [p, proc ?d]"
    by blast
  have d: "collect_results now tot c rs = ?d"
    by (simp only: rs collect_results_append)
  have n: "notified ?d = ns @ [p, proc ?d]" using p(2) ns(1) assms(4) by simp
  have f1: "filter (\<lambda>p. BatchStatus p = ''completed'') ns = []"
    using ns(3) assms(3) by (simp add: filter_empty_conv)
  have f2: "BatchStatus p \<noteq> ''completed''" using p(1) b assms(3) by simp
  have f3: "BatchStatus (proc ?d) = ''completed''" by (rule collect_step_last(1)[OF eq])
  have "filter (\<lambda>p. BatchStatus p = ''completed'') (notified ?d) = [proc ?d]"
    unfolding n using f1 f2 f3 by simp
  moreover have "last (notified ?d) = proc ?d" unfolding n by simp
  moreover have "length (notified ?d) = Suc (length rs)" unfolding n using ns(2) rs by simp
  ultimately show ?thesis
    unfolding d using f3 collect_step_last(2,3)[OF eq] by simp
qed

lemma collect_results_Jobs_length:
  "length (Jobs (proc (collect_results now tot c rs))) = length (Jobs (proc c))"
  by (induction rs arbitrary: c) (auto simp: collect_step_Jobs length_update_first)


lemma startProcessing_unfold:
  "startProcessing envs now s bp =
     collect_results now (int (length (Jobs bp)))
       \<lparr>proc = bp\<lparr>BatchStatus := ''processing''\<rparr>, completed = 0,
        results_closed = False, notified = []\<rparr>
       (map (\<lambda>i. worker (envs i) (Jobs bp ! i)) s)"
  by (simp add: startProcessing_def Let_def)

lemma startProcessing_progress:
  assumes "BatchProgress bp = 0"
  shows "BatchProgress (proc (startProcessing envs now s bp))
           = (100 * int (length s)) div int (length (Jobs bp))"
proof (cases "s = []")
  case True
  then show ?thesis using assms by (simp add: startProcessing_unfold)
next
  case False
  then have "map (\<lambda>i. worker (envs i) (Jobs bp ! i)) s \<noteq> []" by simp
  from collect_results_progress[OF this]
  show ?thesis unfolding startProcessing_unfold by (simp add: mult.commute)
qed

lemma startProcessing_before:
  assumes "length s < length (Jobs bp)"
  shows "BatchStatus (proc (startProcessing envs now s bp)) = ''processing'' \<and>
         EndTime (proc (startProcessing envs now s bp)) = EndTime bp \<and>
         \<not> results_closed (startProcessing envs now s bp)"
proof -
  let ?c0 = "\<lparr>proc = bp\<lparr>BatchStatus := ''processing''\<rparr>, completed = 0,
        results_closed = False, notified = []\<rparr>"
  have "completed ?c0 + int (length (map (\<lambda>i. worker (envs i) (Jobs bp ! i)) s))
          < int (length (Jobs bp))"
    using assms by simp
  from collect_results_before_last[OF this, of now]
  show ?thesis unfolding startProcessing_unfold by simp
qed

lemma startProcessing_final:
  assumes "Jobs bp \<noteq> []" "length s = length (Jobs bp)"
  shows "BatchStatus (proc (startProcessing envs now s bp)) = ''completed'' \<and>
         EndTime (proc (startProcessing envs now s bp)) = Some now \<and>
         results_closed (startProcessing envs now s bp) \<and>
         last (notified (startProcessing envs now s bp)) = proc (startProcessing envs now s bp) \<and>
         filter (\<lambda>p. BatchStatus p = ''completed'') (notified (startProcessing envs now s bp))
           = [proc (startProcessing envs now s bp)]"
proof -
  let ?c0 = "\<lparr>proc = bp\<lparr>BatchStatus := ''processing''\<rparr>, completed = 0,
        results_closed = False, notified = []\<rparr>"
  let ?res = "map (\<lambda>i. worker (envs i) (Jobs bp ! i)) s"
  have ne: "?res \<noteq> []" using assms by auto
  have full: "completed ?c0 + int (length ?res) = int (length (Jobs bp))" using assms by simp
  have "BatchStatus (proc ?c0) \<noteq> ''completed''" "notified ?c0 = []" by simp_all
  from collect_results_all[OF ne full this, of now]
  show ?thesis unfolding startProcessing_unfold by blast
qed

lemma perm_upt_length: "mset s = mset [0..<n] \<Longrightarrow> length s = n"
  by (metis length_upt mset_eq_length minus_nat.diff_0)

text \<open>
  Claim C1. Take a batch with \<open>N \<ge> 1\<close> jobs and progress 0, as ingestion creates it, and
  let the results of its jobs arrive in any order \<open>sched\<close>. After the collector has received
  the first \<open>k\<close> results (\<open>k \<le> N\<close>) the progress of the batch is \<open>100 * k div N\<close>; while
  \<open>k < N\<close> the batch is still processing, its end time is untouched and the results channel
  is open. After all \<open>N\<close> results the progress is 100, the status is completed, the end time
  is set, the results channel is closed, the last notification announces that final state,
  and it is the only notification that announces a completed batch: the completion branch
  runs once.
\<close>
theorem startProcessing_progress_and_completion:
  assumes "Jobs bp \<noteq> []"
    and "BatchProgress bp = 0"
    and "mset sched = mset [0..<length (Jobs bp)]"
    and "k \<le> length (Jobs bp)"
  shows "BatchProgress (proc (startProcessing envs now (take k sched) bp))
           = (100 * int k) div int (length (Jobs bp)) \<and>
         (k < length (Jobs bp) \<longrightarrow>
            BatchStatus (proc (startProcessing envs now (take k sched) bp)) = ''processing'' \<and>
            EndTime (proc (startProcessing envs now (take k sched) bp)) = EndTime bp \<and>
            \<not> results_closed (startProcessing envs now (take k sched) bp)) \<and>
         BatchProgress (proc (startProcessing envs now sched bp)) = 100 \<and>
         BatchStatus (proc (startProcessing envs now sched bp)) = ''completed'' \<and>
         EndTime (proc (startProcessing envs now sched bp)) = Some now \<and>
         results_closed (startProcessing envs now sched bp) \<and>
         last (notified (startProcessing envs now sched bp))
           = proc (startProcessing envs now sched bp) \<and>
         filter (\<lambda>p. BatchStatus p = ''completed'') (notified (startProcessing envs now sched bp))
           = [proc (startProcessing envs now sched bp)]"
proof -
  have len: "length sched = length (Jobs bp)"
    using assms(3) by (rule perm_upt_length)
  have lk: "length (take k sched) = k" using len assms(4) by simp
  have p1: "BatchProgress (proc (startProcessing envs now (take k sched) bp))
           = (100 * int k) div int (length (Jobs bp))"
    using startProcessing_progress[OF assms(2), of envs now "take k sched"] lk by simp
  have p2: "k < length (Jobs bp) \<longrightarrow>
            BatchStatus (proc (startProcessing envs now (take k sched) bp)) = ''processing'' \<and>
            EndTime (proc (startProcessing envs now (take k sched) bp)) = EndTime bp \<and>
            \<not> results_closed (startProcessing envs now (take k sched) bp)"
    using startProcessing_before[of "take k sched" bp envs now] lk by simp
  have "0 < length (Jobs bp)" using assms(1) by simp
  then have p3: "BatchProgress (proc (startProcessing envs now sched bp)) = 100"
    using startProcessing_progress[OF assms(2), of envs now sched] len by simp
  from p1 p2 p3 startProcessing_final[OF assms(1) len, of envs now]
  show ?thesis by blast
qed

theorem startProcessing_progress_and_completion_witness:
  "Jobs (pending_batch [pending_job ''M1'' ''http://a'', pending_job ''M2'' ''http://b'']) \<noteq> [] \<and>
   BatchProgress (pending_batch [pending_job ''M1'' ''http://a'', pending_job ''M2'' ''http://b'']) = 0 \<and>
   mset [1, 0] = mset [0..<length (Jobs (pending_batch
      [pending_job ''M1'' ''http://a'', pending_job ''M2'' ''http://b'']))] \<and>
   BatchProgress (proc (startProcessing (\<lambda>_. demo_env) 7 (take 1 [1, 0])
      (pending_batch [pending_job ''M1'' ''http://a'', pending_job ''M2'' ''http://b''])))
     = 50 \<and>
   BatchStatus (proc (startProcessing (\<lambda>_. demo_env) 7 (take 1 [1, 0])
      (pending_batch [pending_job ''M1'' ''http://a'', pending_job ''M2'' ''http://b''])))
     = ''processing'' \<and>
   BatchProgress (proc (startProcessing (\<lambda>_. demo_env) 7 [1, 0]
      (pending_batch [pending_job ''M1'' ''http://a'', pending_job ''M2'' ''http://b''])))
     = 100 \<and>
   BatchStatus (proc (startProcessing (\<lambda>_. demo_env) 7 [1, 0]
      (pending_batch [pending_job ''M1'' ''http://a'', pending_job ''M2'' ''http://b''])))
     = ''completed'' \<and>
   EndTime (proc (startProcessing (\<lambda>_. demo_env) 7 [1, 0]
      (pending_batch [pending_job ''M1'' ''http://a'', pending_job ''M2'' ''http://b''])))
     = Some 7"
proof -
  let ?bp = "pending_batch [pending_job ''M1'' ''http://a'', pending_job ''M2'' ''http://b'']"
  have h1: "Jobs ?bp \<noteq> []" by (simp add: pending_batch_def)
  have h2: "BatchProgress ?bp = 0" by (simp add: pending_batch_def)
  have l: "length (Jobs ?bp) = 2" by (simp add: pending_batch_def)
  have u: "[0..<2] = [0, Suc 0]" by (simp add: upt_rec)
  have h3: "mset [1, 0] = mset [0..<length (Jobs ?bp)]" unfolding l u by simp
  have h4: "1 \<le> length (Jobs ?bp)" unfolding l by simp
  have d: "(100 * int 1) div int 2 = 50" by simp
  from startProcessing_progress_and_completion[OF h1 h2 h3 h4, of "\<lambda>_. demo_env" 7]
  have "BatchProgress (proc (startProcessing (\<lambda>_. demo_env) 7 (take 1 [1, 0]) ?bp)) = 50"
    and "BatchStatus (proc (startProcessing (\<lambda>_. demo_env) 7 (take 1 [1, 0]) ?bp)) = ''processing''"
    and "BatchProgress (proc (startProcessing (\<lambda>_. demo_env) 7 [1, 0] ?bp)) = 100"
    and "BatchStatus (proc (startProcessing (\<lambda>_. demo_env) 7 [1, 0] ?bp)) = ''completed''"
    and "EndTime (proc (startProcessing (\<lambda>_. demo_env) 7 [1, 0] ?bp)) = Some 7"
    unfolding l d by simp_all
  with h1 h2 h3 show ?thesis by blast
qed



section \<open>\<open>processURL\<close>: retries and service errors\<close>

















section \<open>The structured merge\<close>

lemma dedupeStringSlice_other:
  "k \<noteq> key \<Longrightarrow> dedupeStringSlice m key k = m k"
  by (simp add: dedupeStringSlice_def split: option.splits gvalue.splits)



lemma merge_found_total:
  "mergeable rs \<Longrightarrow> \<exists>m. merge_found c rs = Inr m"
proof (induction rs arbitrary: c)
  case Nil
  then show ?case by simp
next
  case (Cons f rs)
  then show ?case
    by (cases f) (auto split: option.splits gvalue.splits)
qed

lemma combine_product_total:
  "mergeable rs \<Longrightarrow> \<exists>m. combine_product rs = Inr m"
  using merge_found_total[of rs combined_init] by (auto simp: combine_product_def)



lemma ensureKeyExists_apply:
  "ensureKeyExists m key d k =
     (if k = key then (case m key of None \<Rightarrow> Some d | Some v \<Rightarrow> Some v) else m k)"
  by (simp add: ensureKeyExists_def split: option.splits)

lemma wrap_string_apply:
  "wrap_string m key k =
     (if k = key then
        (case m key of
           Some (VString val) \<Rightarrow> if val \<noteq> ''NO_MATCH'' then Some (VStrings [val]) else m key
         | _ \<Rightarrow> m key)
      else m k)"
  by (simp add: wrap_string_def split: option.splits gvalue.splits)

lemma dedupe_loop_first_seen:
  "dedupe_loop xs S acc = acc @ first_seen (filter (\<lambda>x. x \<notin> S) xs)"
proof (induction xs arbitrary: S acc)
  case Nil
  then show ?case by simp
next
  case (Cons x xs)
  show ?case
  proof (cases "x \<in> S")
    case True
    then show ?thesis using Cons.IH[of S acc] by simp
  next
    case False
    have "filter (\<lambda>y. y \<noteq> x) (filter (\<lambda>y. y \<notin> S) xs) = filter (\<lambda>y. y \<notin> insert x S) xs"
      by (induction xs) auto
    then show ?thesis using False Cons.IH[of "insert x S" "acc @ [x]"] by simp
  qed
qed

lemma dedupe_is_first_seen: "dedupe_loop xs {} [] = first_seen xs"
  by (simp add: dedupe_loop_first_seen)

lemma set_first_seen: "set (first_seen xs) = set xs"
  by (induction xs rule: first_seen.induct) auto

lemma distinct_first_seen: "distinct (first_seen xs)"
  by (induction xs rule: first_seen.induct) (auto simp: set_first_seen)

lemma merge_value_list:
  assumes "k = ''user_manual'' \<or> k = ''other_documents''"
  shows "merge_value k v (Some (VStrings acc)) =
           Some (VStrings (acc @ (case v of VStrings list \<Rightarrow> list
                                  | VString str \<Rightarrow> if str \<noteq> ''NO_MATCH'' then [str] else []
                                  | _ \<Rightarrow> [])))"
  using assms by (auto simp: merge_value_def split: gvalue.splits)

lemma backfill_raw: "backfill m ''raw_content'' = m ''raw_content''" unfolding backfill_def Let_def by (simp add: ensureKeyExists_apply wrap_string_apply)

lemma merge_found_list:
  assumes "k = ''user_manual'' \<or> k = ''other_documents''"
    "c k = Some (VStrings acc)" "merge_found c rs = Inr m"
  shows "m k = Some (VStrings (acc @ concat (map (links_of k) rs)))"
  using assms(2,3)
proof (induction rs arbitrary: c acc)
  case Nil
  then show ?case by simp
next
  case (Cons f rs)
  from assms(1) have k: "k \<noteq> ''additional_info''" by auto
  show ?case
  proof (cases f)
    case (FText t)
    with Cons.prems show ?thesis by simp
  next
    case (FRecord r)
    show ?thesis
    proof (cases "r ''raw_content''")
      case None
      let ?c = "merge_record c r"
      have ck: "?c k = Some (VStrings (acc @ links_of k f))"
        using Cons.prems(1) merge_value_list[OF assms(1)] FRecord None
        by (simp add: merge_record_def links_of_def split: option.splits gvalue.splits)
      have mf: "merge_found ?c rs = Inr m" using Cons.prems(2) FRecord None by simp
      from Cons.IH[OF ck mf] show ?thesis by simp
    next
      case (Some rc)
      with Cons.prems(2) FRecord obtain s where s: "rc = VString s"
        by (cases rc) simp_all
      let ?c = "case c ''additional_info'' of
               Some (VStrings acc) \<Rightarrow> c(''additional_info'' \<mapsto> VStrings (acc @ [s]))
             | _ \<Rightarrow> c"
      have ck: "?c k = Some (VStrings acc)"
        using Cons.prems(1) k by (simp split: option.splits gvalue.splits)
      have mf: "merge_found ?c rs = Inr m" using Cons.prems(2) FRecord Some s by simp
      from Cons.IH[OF ck mf] show ?thesis using FRecord Some by (simp add: links_of_def)
    qed
  qed
qed

lemma dedupeStringSlice_same:
  "m key = Some (VStrings xs) \<Longrightarrow> dedupeStringSlice m key key = Some (VStrings (first_seen xs))"
  by (simp add: dedupeStringSlice_def dedupe_is_first_seen)

lemma combine_product_list:
  assumes "mergeable rs" and "k = ''user_manual'' \<or> k = ''other_documents''"
  shows "\<exists>m. combine_product rs = Inr m \<and>
             m k = Some (VStrings (first_seen (concat (map (links_of k) rs))))"
proof -
  from merge_found_total[OF assms(1)] obtain c where c: "merge_found combined_init rs = Inr c"
    by blast
  have "combined_init k = Some (VStrings [])" using assms(2) by (auto simp: combined_init_def)
  from merge_found_list[OF assms(2) this c]
  have ck: "c k = Some (VStrings (concat (map (links_of k) rs)))" by simp
  show ?thesis
  proof (cases "k = ''user_manual''")
    case True
    then show ?thesis using c ck
      by (simp add: combine_product_def dedupeStringSlice_other dedupeStringSlice_same)
  next
    case False
    with assms(2) have "k = ''other_documents''" by simp
    then show ?thesis using c ck
      by (simp add: combine_product_def dedupeStringSlice_other dedupeStringSlice_same)
  qed
qed

lemma backfill_name:
  "backfill m ''name'' = Some (case m ''name'' of None \<Rightarrow> VString ''NO_MATCH'' | Some v \<Rightarrow> v)"
  unfolding backfill_def Let_def
  by (simp add: ensureKeyExists_apply wrap_string_apply split: option.splits)

lemma backfill_model_number:
  "backfill m ''model_number''
     = Some (case m ''model_number'' of None \<Rightarrow> VString ''NO_MATCH'' | Some v \<Rightarrow> v)"
  unfolding backfill_def Let_def
  by (simp add: ensureKeyExists_apply wrap_string_apply split: option.splits)

lemma backfill_serial_number:
  "backfill m ''serial_number''
     = Some (case m ''serial_number'' of None \<Rightarrow> VString ''NO_MATCH'' | Some v \<Rightarrow> v)"
  unfolding backfill_def Let_def
  by (simp add: ensureKeyExists_apply wrap_string_apply split: option.splits)

lemma backfill_warranty_info:
  "backfill m ''warranty_info''
     = Some (case m ''warranty_info'' of None \<Rightarrow> VString ''NO_MATCH'' | Some v \<Rightarrow> v)"
  unfolding backfill_def Let_def
  by (simp add: ensureKeyExists_apply wrap_string_apply split: option.splits)

lemma backfill_user_manual:
  "backfill m ''user_manual''
     = Some (case m ''user_manual'' of
               None \<Rightarrow> VStrings []
             | Some (VString val) \<Rightarrow>
                 if val \<noteq> ''NO_MATCH'' then VStrings [val] else VString val
             | Some v \<Rightarrow> v)"
  unfolding backfill_def Let_def
  by (simp add: ensureKeyExists_apply wrap_string_apply split: option.splits gvalue.splits)

lemma backfill_other_documents:
  "backfill m ''other_documents''
     = Some (case m ''other_documents'' of
               None \<Rightarrow> VStrings []
             | Some (VString val) \<Rightarrow>
                 if val \<noteq> ''NO_MATCH'' then VStrings [val] else VString val
             | Some v \<Rightarrow> v)"
  unfolding backfill_def Let_def
  by (simp add: ensureKeyExists_apply wrap_string_apply split: option.splits gvalue.splits)

lemmas backfill_simps = backfill_raw backfill_name backfill_model_number backfill_serial_number
  backfill_warranty_info backfill_user_manual backfill_other_documents




text \<open>
  Claim C6 at a failing input. Three groups answer with a JSON array under \<open>user_manual\<close>:
  \<open>["manual.pdf"]\<close>, \<open>["manual.pdf"]\<close> and \<open>["spec.pdf"]\<close>. \<open>json.Unmarshal\<close> stores each
  array as a \<open>[]interface{}\<close>, which is neither a \<open>[]string\<close> nor a \<open>string\<close>, so neither
  branch of the merge takes it: the merged list is empty, not \<open>manual.pdf, spec.pdf\<close>.
\<close>
theorem list_field_drops_json_arrays:
  "(case combine_product
           [FRecord (backfill [''user_manual'' \<mapsto> VArray [VString ''manual.pdf'']]),
            FRecord (backfill [''user_manual'' \<mapsto> VArray [VString ''manual.pdf'']]),
            FRecord (backfill [''user_manual'' \<mapsto> VArray [VString ''spec.pdf'']])] of
      Inl e \<Rightarrow> None
    | Inr m \<Rightarrow> m ''user_manual'') = Some (VStrings [])"
proof -
  let ?rs = "[FRecord (backfill [''user_manual'' \<mapsto> VArray [VString ''manual.pdf'']]),
            FRecord (backfill [''user_manual'' \<mapsto> VArray [VString ''manual.pdf'']]),
            FRecord (backfill [''user_manual'' \<mapsto> VArray [VString ''spec.pdf'']])]"
  have h: "mergeable ?rs" by (simp add: backfill_simps)
  have l: "concat (map (links_of ''user_manual'') ?rs) = []"
    by (simp add: links_of_def backfill_simps)
  from combine_product_list[OF h, of "''user_manual''"] show ?thesis unfolding l by auto
qed

lemma list_field_of_go_strings:
  "(case combine_product
           [FRecord (backfill [''user_manual'' \<mapsto> VString ''manual.pdf'']),
            FRecord (backfill [''user_manual'' \<mapsto> VString ''manual.pdf'']),
            FRecord (backfill [''user_manual'' \<mapsto> VString ''spec.pdf''])] of
      Inl e \<Rightarrow> None
    | Inr m \<Rightarrow> m ''user_manual'') = Some (VStrings [''manual.pdf'', ''spec.pdf''])"
proof -
  let ?rs = "[FRecord (backfill [''user_manual'' \<mapsto> VString ''manual.pdf'']),
            FRecord (backfill [''user_manual'' \<mapsto> VString ''manual.pdf'']),
            FRecord (backfill [''user_manual'' \<mapsto> VString ''spec.pdf''])]"
  have h: "mergeable ?rs" by (simp add: backfill_simps)
  have l: "first_seen (concat (map (links_of ''user_manual'') ?rs)) = [''manual.pdf'', ''spec.pdf'']"
    by (simp add: links_of_def backfill_simps)
  from combine_product_list[OF h, of "''user_manual''"] show ?thesis unfolding l by auto
qed

section \<open>The loop over the groups\<close>


lemma request_groups_stops_at_error:
  "chat P i (Join g '' '') = Inl err \<Longrightarrow>
     request_groups P isProd i (g # gs) found calls = (Inl (RequestFailed err), Suc calls)"
  by simp

text \<open>
  Claim C4 at a failing input. Four chunks make two groups. The request for the first group
  fails; the request for the second would be answered. \<open>parseWithGemini\<close> returns the error
  of the first request after that one request: the second group is never evaluated, and
  the call as a whole fails.
\<close>
theorem failed_request_fails_the_whole_merge:
  "parseWithGemini failing_first_call [''a'', ''b'', ''c'', ''Serial: AB123''] ''find the serial''
     = (Inl (RequestFailed ''context deadline exceeded''), 1)"
  by (simp add: parseWithGemini_def failing_first_call_def)





section \<open>Ingestion and the lock discipline\<close>

lemma lower_model_number: "ToLower (TrimSpace ''model_number'') = ''model_number''"
  by (simp add: TrimSpace_def ToLower_def lower_char_def is_space_def)

lemma lower_url: "ToLower (TrimSpace ''url'') = ''url''"
  by (simp add: TrimSpace_def ToLower_def lower_char_def is_space_def)

lemma lower_parse_description: "ToLower ''parse_description'' = ''parse_description''"
  by (simp add: ToLower_def lower_char_def)

lemma read_jobs_one_job_per_record:
  "read_jobs headers requiredColumns ls jobs = Inr out \<Longrightarrow>
     length out = length jobs + length ls"
proof (induction ls arbitrary: jobs)
  case Nil
  then show ?case by simp
next
  case (Cons l ls)
  show ?case
  proof (cases l)
    case Malformed
    with Cons.prems show ?thesis by simp
  next
    case (Fields rec)
    with Cons.prems have "length rec = length headers"
      by (auto split: if_splits)
    with Cons.prems Fields obtain job where
      "read_jobs headers requiredColumns ls (jobs @ [job]) = Inr out"
      by (auto simp: Let_def)
    from Cons.IH[OF this] show ?thesis by simp
  qed
qed

text \<open>
  Claim C8 at a failing input. The upload has the columns \<open>model_number\<close> and \<open>url\<close> and
  three records, the second with an empty url. \<open>handleFileUpload\<close> neither rejects it nor
  skips the record: it creates a batch of three jobs, the second with the empty url.
\<close>
theorem empty_url_row_becomes_a_job:
  "fst (handleFileUpload 1 three_rows_one_empty_url Map.empty)
     = Inr \<lparr>ID = ''batch_1'',
            Jobs = [pending_job ''M1'' ''http://a.example'', pending_job ''M2'' [],
                    pending_job ''M3'' ''http://c.example''],
            BatchStatus = ''pending'', BatchProgress = 0, StartTime = 1, EndTime = None,
            clients = []\<rparr>"
proof -
  have d: "fmt_d 1 = ''1''" by code_simp
  show ?thesis
    by (simp add: handleFileUpload_def three_rows_one_empty_url_def index_of_def
          lower_model_number lower_url lower_parse_description getColumnIndex_def
          pending_job_def d Let_def)
qed

lemma worker_keeps_key: "job_key (worker E job) = job_key job"
  by (simp add: worker_def job_key_def split: option.splits)

text \<open>
  Claim C9 at a failing input. For a batch of one job, the collector of \<open>startProcessing\<close>
  reads \<open>bp.Jobs\<close> and writes \<open>bp.Progress\<close>, \<open>bp.Status\<close> and \<open>bp.EndTime\<close> while it does
  not hold \<open>bp.mu\<close>: \<open>updateJob\<close> and \<open>notifyClients\<close> have released it on return.
\<close>
theorem collector_writes_outside_the_lock:
  "unguarded False
     (collector_accesses (\<lambda>_. demo_env) 7 [0] (pending_batch [pending_job ''M1'' ''http://a'']))
     = [Read FJobs, Write FProgress, Write FStatus, Write FEndTime] \<and>
   guarded False
     (collector_accesses (\<lambda>_. demo_env) 7 [0] (pending_batch [pending_job ''M1'' ''http://a'']))
     = False"
  by (simp add: collector_accesses_def collect_step_accesses_def updateJob_accesses_def
        notifyClients_accesses_def pending_batch_def worker_keeps_key Let_def)

end
